theory Spec2Isabelle
  imports Complex_Main
begin

section \<open>Values, errors and promises\<close>

text \<open>
  The two provisioning modules, \<^verbatim>\<open>packages/firestore/exp/src/api/components.ts\<close> and
  \<^verbatim>\<open>packages/firestore/lite/src/api/components.ts\<close>, keep one module-level
  \<^verbatim>\<open>Map<Firestore, Promise<...>>\<close> each. Objects are compared by identity, so
  Firestore handles, promises and clients are references (natural numbers) into
  explicit heaps, and every function takes the world and returns the new one.
  A \<^verbatim>\<open>throw\<close> is the left injection of a sum; it carries no world, because a
  synchronous throw of these functions happens before any write.
\<close>

datatype Code = FAILED_PRECONDITION | INVALID_ARGUMENT

datatype error =
    FirestoreError Code string
  | ExternalError string

text \<open>
  A JavaScript \<^verbatim>\<open>number\<close>, as far as \<^verbatim>\<open><\<close> and \<^verbatim>\<open>!==\<close> see it: every finite
  double is a real, and comparisons of finite doubles are exact.
\<close>

datatype number = NaN | NegInfinity | Num real | PosInfinity

fun number_lt :: "number \<Rightarrow> number \<Rightarrow> bool" where
  "number_lt NaN b = False"
| "number_lt a NaN = False"
| "number_lt PosInfinity b = False"
| "number_lt a NegInfinity = False"
| "number_lt NegInfinity b = True"
| "number_lt (Num x) (Num y) = (x < y)"
| "number_lt (Num x) PosInfinity = True"

definition strict_neq :: "number \<Rightarrow> number \<Rightarrow> bool" where
  "strict_neq a b = (a = NaN \<or> b = NaN \<or> a \<noteq> b)"

text \<open>The nullish coalescing operator \<^verbatim>\<open>a ?? b\<close> on an optional field.\<close>

definition nullish :: "'a option \<Rightarrow> 'a \<Rightarrow> 'a" where
  "nullish a b = (case a of None \<Rightarrow> b | Some x \<Rightarrow> x)"

type_synonym firestore_ref = nat
type_synonym pid = nat
type_synonym cid = nat
type_synonym CredentialsProvider = nat

datatype DatabaseId = DatabaseId string string

datatype DatabaseInfo = DatabaseInfo DatabaseId string string bool bool

datatype ComponentProvider =
    MemoryComponentProvider
  | IndexedDbComponentProvider
  | MultiTabIndexedDbComponentProvider

text \<open>\<^verbatim>\<open>{durable, cacheSizeBytes?, synchronizeTabs?}\<close>\<close>

datatype PersistenceSettings = PersistenceSettings bool "number option" "bool option"

datatype pvalue =
    Undefined
  | Client cid
  | Connection nat
  | Datastore pvalue CredentialsProvider DatabaseId

datatype pstate = Pending | Fulfilled pvalue | Rejected error

text \<open>
  The callbacks the two modules pass to \<^verbatim>\<open>then\<close>: \<^verbatim>\<open>() => firestoreClient\<close>, and
  \<^verbatim>\<open>connection => newDatastore(connection, firestore._credentials,
  newSerializer(databaseInfo.databaseId))\<close>.
\<close>

datatype callback =
    Return pvalue
  | NewDatastore CredentialsProvider DatabaseId

fun apply_callback :: "callback \<Rightarrow> pvalue \<Rightarrow> pvalue" where
  "apply_callback (Return v) x = v"
| "apply_callback (NewDatastore cr d) x = Datastore x cr d"

text \<open>
  A promise is either settled from outside (the promise of \<^verbatim>\<open>start()\<close>,
  \<^verbatim>\<open>terminate()\<close>, \<^verbatim>\<open>newConnection()\<close>, a \<^verbatim>\<open>Deferred\<close>), or derived with
  \<^verbatim>\<open>p.then(callback)\<close>. A derived promise has no state of its own: it is pending
  while its source is, fulfils with the callback's value and rejects with the
  source's reason. The microtask between the two settlements is not modelled. A
  derived promise refers to a promise allocated before it; a reference to no
  promise of the heap never settles.
\<close>

datatype promise = Promise pstate | Then pid callback

fun then_state :: "callback \<Rightarrow> pstate \<Rightarrow> pstate" where
  "then_state k Pending = Pending"
| "then_state k (Fulfilled v) = Fulfilled (apply_callback k v)"
| "then_state k (Rejected e) = Rejected e"

function promise_state :: "promise list \<Rightarrow> pid \<Rightarrow> pstate" where
  "promise_state ps p =
     (if p < length ps then
        (case ps ! p of
           Promise s \<Rightarrow> s
         | Then q k \<Rightarrow> (if q < p then then_state k (promise_state ps q) else Pending))
      else Pending)"
  by pat_completeness auto
termination
  by (relation "measure (\<lambda>(ps, p). p)") auto

declare promise_state.simps [simp del]

text \<open>Settling from outside: only a pending, externally settled promise changes.\<close>

definition settle :: "promise list \<Rightarrow> pid \<Rightarrow> pstate \<Rightarrow> promise list" where
  "settle ps p s =
     (if p < length ps \<and> ps ! p = Promise Pending then ps[p := Promise s] else ps)"

section \<open>The world\<close>

record Settings =
  host :: "string option"
  ssl :: "bool option"
  cacheSizeBytes :: "number option"

definition emptySettings :: Settings where
  "emptySettings = \<lparr>host = None, ssl = None, cacheSizeBytes = None\<rparr>"

text \<open>A task of the handle's \<^verbatim>\<open>AsyncQueue\<close>: the closure \<^verbatim>\<open>_clearPersistence\<close> enqueues.\<close>

datatype task = ClearPersistenceTask pid

record AsyncQueue =
  tasks :: "task list"
  isShuttingDown :: bool

text \<open>The fields of a \<^verbatim>\<open>Firestore\<close> object that the two modules read.\<close>

record Firestore =
  fs_databaseId :: DatabaseId
  fs_persistenceKey :: string
  fs_credentials :: CredentialsProvider
  fs_queue :: AsyncQueue
  fs_settings :: "Settings option"
  fs_terminated :: bool

datatype runtime_state = Unstarted | Starting | Running | Terminating | Terminated

record FirestoreClient =
  clientCredentials :: CredentialsProvider
  clientQueue :: firestore_ref
  runtime :: runtime_state
  startArgs :: "(DatabaseInfo \<times> ComponentProvider \<times> PersistenceSettings) option"
  startPromise :: "pid option"
  terminatePromise :: "pid option"

record world =
  firestores :: "firestore_ref \<Rightarrow> Firestore"
  firestoreClientInstances :: "firestore_ref \<rightharpoonup> pid"
  datastoreInstances :: "firestore_ref \<rightharpoonup> pid"
  promises :: "promise list"
  clients :: "FirestoreClient list"
  connections :: "(DatabaseInfo \<times> pid) list"
  terminatedDatastores :: "(pvalue \<times> pid) list"
  delegateCalls :: "(DatabaseId \<times> string) list"

definition state_of :: "world \<Rightarrow> pid \<Rightarrow> pstate" where
  "state_of w p = promise_state (promises w) p"

definition new_promise :: "world \<Rightarrow> promise \<Rightarrow> pid \<times> world" where
  "new_promise w x = (length (promises w), w\<lparr>promises := promises w @ [x]\<rparr>)"

section \<open>The full SDK: exp/src/api/components.ts\<close>

definition DEFAULT_HOST :: string where
  "DEFAULT_HOST = ''firestore.googleapis.com''"

definition DEFAULT_SSL :: bool where
  "DEFAULT_SSL = True"

text \<open>
  \<^verbatim>\<open>Firestore._getSettings\<close>: an unset \<^verbatim>\<open>_settings\<close> is replaced by \<^verbatim>\<open>{}\<close> first.
\<close>

definition getSettings :: "world \<Rightarrow> firestore_ref \<Rightarrow> Settings \<times> world" where
  "getSettings w f =
     (case fs_settings (firestores w f) of
        Some s \<Rightarrow> (s, w)
      | None \<Rightarrow>
          (emptySettings,
           w\<lparr>firestores := (firestores w)(f := (firestores w f)\<lparr>fs_settings := Some emptySettings\<rparr>)\<rparr>))"

text \<open>\<^verbatim>\<open>new FirestoreClient(credentials, queue)\<close>: a fresh client, not started.\<close>

definition newFirestoreClient ::
  "world \<Rightarrow> CredentialsProvider \<Rightarrow> firestore_ref \<Rightarrow> cid \<times> world" where
  "newFirestoreClient w cr q =
     (length (clients w),
      w\<lparr>clients := clients w @
          [\<lparr>clientCredentials = cr, clientQueue = q, runtime = Unstarted,
            startArgs = None, startPromise = None, terminatePromise = None\<rparr>]\<rparr>)"

text \<open>
  Modelled from the spec: \<^verbatim>\<open>FirestoreClient.start\<close> (core/firestore_client, not among
  the sources). Section 4.2: \<open>start(databaseInfo, persistenceProvider,
  persistenceSettings) -> future<void>\<close>, Unstarted to Starting at the request;
  construction proceeds asynchronously, so the returned future is pending.
\<close>

definition start ::
  "world \<Rightarrow> cid \<Rightarrow> DatabaseInfo \<Rightarrow> ComponentProvider \<Rightarrow> PersistenceSettings \<Rightarrow> pid \<times> world" where
  "start w c di cp ps =
     (let (p, w1) = new_promise w (Promise Pending)
      in (p, w1\<lparr>clients := (clients w1)[c := (clients w1 ! c)
                  \<lparr>runtime := Starting, startArgs := Some (di, cp, ps), startPromise := Some p\<rparr>]\<rparr>))"

definition already_started :: error where
  "already_started = FirestoreError FAILED_PRECONDITION
     (''Firestore has already been started and persistence can no longer '' @
      ''be enabled. You can only enable persistence before calling '' @
      ''any other methods on a Firestore object.'')"

definition already_terminated :: error where
  "already_terminated =
     FirestoreError FAILED_PRECONDITION ''The client has already been terminated.''"

definition hasFirestoreClient :: "world \<Rightarrow> firestore_ref \<Rightarrow> bool" where
  "hasFirestoreClient w f = (firestoreClientInstances w f \<noteq> None)"

definition initializeFirestoreClient ::
  "world \<Rightarrow> firestore_ref \<Rightarrow> ComponentProvider \<Rightarrow> PersistenceSettings \<Rightarrow> error + (pid \<times> world)" where
  "initializeFirestoreClient w f cp ps =
     (if fs_terminated (firestores w f) \<or> hasFirestoreClient w f then Inl already_started
      else
        let (s, w1) = getSettings w f;
            fs = firestores w1 f;
            databaseInfo = DatabaseInfo (fs_databaseId fs) (fs_persistenceKey fs)
                             (nullish (host s) DEFAULT_HOST) (nullish (ssl s) DEFAULT_SSL) False;
            (c, w2) = newFirestoreClient w1 (fs_credentials fs) f;
            (initializationPromise, w3) = start w2 c databaseInfo cp ps;
            (p, w4) = new_promise w3 (Then initializationPromise (Return (Client c)))
        in Inr (initializationPromise,
                w4\<lparr>firestoreClientInstances := (firestoreClientInstances w4)(f \<mapsto> p)\<rparr>))"

text \<open>
  The result is what \<^verbatim>\<open>firestoreClientInstances.get(firestore)\<close> gives; the \<^verbatim>\<open>!\<close> of
  the source is erased at run time, so the model returns the lookup as it is.
\<close>

definition getFirestoreClient ::
  "world \<Rightarrow> firestore_ref \<Rightarrow> error + (pid option \<times> world)" where
  "getFirestoreClient w f =
     (if fs_terminated (firestores w f) then Inl already_terminated
      else if firestoreClientInstances w f = None then
        (case initializeFirestoreClient w f MemoryComponentProvider
                (PersistenceSettings False None None) of
           Inl e \<Rightarrow> Inl e
         | Inr (ip, w1) \<Rightarrow> Inr (firestoreClientInstances w1 f, w1))
      else Inr (firestoreClientInstances w f, w))"

text \<open>
  An \<^verbatim>\<open>async\<close> function with one \<^verbatim>\<open>await\<close> is a coroutine of two parts. The call
  runs the body up to the \<^verbatim>\<open>await\<close> and leaves a frame that holds the awaited
  operand; the resumption runs the rest once that operand has settled. The state
  of the promise that the call returned is read off the frame.
\<close>

datatype async_frame =
    Awaiting "pid option"
  | Returned "pid option"
  | Thrown error

definition async_state :: "world \<Rightarrow> async_frame \<Rightarrow> pstate" where
  "async_state w fr =
     (case fr of
        Awaiting x \<Rightarrow> Pending
      | Returned None \<Rightarrow> Fulfilled Undefined
      | Returned (Some p) \<Rightarrow> state_of w p
      | Thrown e \<Rightarrow> Rejected e)"

text \<open>
  Modelled from the spec: \<^verbatim>\<open>FirestoreClient.terminate\<close> (core/firestore_client, not
  among the sources). Sections 3 and 4.2: \<open>terminate() -> future<void>\<close>, Running to
  Terminating at the request and Terminating to Terminated on completion; the
  terminal state is absorbing.
\<close>

definition terminate :: "world \<Rightarrow> cid \<Rightarrow> pid \<times> world" where
  "terminate w c =
     (let (p, w1) = new_promise w (Promise Pending)
      in (p, w1\<lparr>clients := (clients w1)[c := (clients w1 ! c)
                  \<lparr>runtime := (if runtime (clients w1 ! c) = Terminated then Terminated
                               else Terminating),
                   terminatePromise := Some p\<rparr>]\<rparr>))"

text \<open>A method call on a value that is not a client object.\<close>

definition type_error :: error where
  "type_error = ExternalError ''TypeError''"

definition removeFirestoreClient :: "world \<Rightarrow> firestore_ref \<Rightarrow> async_frame" where
  "removeFirestoreClient w f = Awaiting (firestoreClientInstances w f)"

definition removeFirestoreClient_resume ::
  "world \<Rightarrow> firestore_ref \<Rightarrow> async_frame \<Rightarrow> async_frame \<times> world" where
  "removeFirestoreClient_resume w f fr =
     (case fr of
        Awaiting None \<Rightarrow> (Returned None, w)
      | Awaiting (Some p) \<Rightarrow>
          (case state_of w p of
             Pending \<Rightarrow> (fr, w)
           | Rejected e \<Rightarrow> (Thrown e, w)
           | Fulfilled Undefined \<Rightarrow> (Returned None, w)
           | Fulfilled (Client c) \<Rightarrow>
               (let w1 = w\<lparr>firestoreClientInstances := (firestoreClientInstances w)(f := None)\<rparr>;
                    (t, w2) = terminate w1 c
                in (Returned (Some t), w2))
           | Fulfilled v \<Rightarrow>
               (Thrown type_error,
                w\<lparr>firestoreClientInstances := (firestoreClientInstances w)(f := None)\<rparr>))
      | Returned x \<Rightarrow> (fr, w)
      | Thrown e \<Rightarrow> (fr, w))"

section \<open>The lite SDK: lite/src/api/components.ts\<close>

fun databaseId :: "DatabaseInfo \<Rightarrow> DatabaseId" where
  "databaseId (DatabaseInfo d k h s l) = d"

text \<open>
  Modelled from the spec: \<^verbatim>\<open>newConnection\<close> (platform/connection, not among the
  sources). Section 6: \<open>openConnection(databaseInfo) -> future<Connection>\<close>. The
  request is logged with the promise that answers it.
\<close>

definition newConnection :: "world \<Rightarrow> DatabaseInfo \<Rightarrow> pid \<times> world" where
  "newConnection w di =
     (let (p, w1) = new_promise w (Promise Pending)
      in (p, w1\<lparr>connections := connections w1 @ [(di, p)]\<rparr>))"

definition getDatastore :: "world \<Rightarrow> firestore_ref \<Rightarrow> pid option \<times> world" where
  "getDatastore w f =
     (if datastoreInstances w f = None then
        let (s, w1) = getSettings w f;
            fs = firestores w1 f;
            databaseInfo = DatabaseInfo (fs_databaseId fs) (fs_persistenceKey fs)
                             (nullish (host s) DEFAULT_HOST) (nullish (ssl s) DEFAULT_SSL) False;
            (connectionPromise, w2) = newConnection w1 databaseInfo;
            (datastorePromise, w3) =
               new_promise w2
                 (Then connectionPromise (NewDatastore (fs_credentials fs) (databaseId databaseInfo)));
            w4 = w3\<lparr>datastoreInstances := (datastoreInstances w3)(f \<mapsto> datastorePromise)\<rparr>
        in (datastoreInstances w4 f, w4)
      else (datastoreInstances w f, w))"

text \<open>
  Modelled from the spec: \<^verbatim>\<open>terminateDatastore\<close> (remote/datastore, not among the
  sources), the lite counterpart of \<open>terminate() -> future<void>\<close>. The request is
  logged with the promise that answers it.
\<close>

definition terminateDatastore :: "world \<Rightarrow> pvalue \<Rightarrow> pid \<times> world" where
  "terminateDatastore w d =
     (let (p, w1) = new_promise w (Promise Pending)
      in (p, w1\<lparr>terminatedDatastores := terminatedDatastores w1 @ [(d, p)]\<rparr>))"

definition removeDatastore :: "world \<Rightarrow> firestore_ref \<Rightarrow> async_frame" where
  "removeDatastore w f = Awaiting (datastoreInstances w f)"

definition removeDatastore_resume ::
  "world \<Rightarrow> firestore_ref \<Rightarrow> async_frame \<Rightarrow> async_frame \<times> world" where
  "removeDatastore_resume w f fr =
     (case fr of
        Awaiting None \<Rightarrow> (Returned None, w)
      | Awaiting (Some p) \<Rightarrow>
          (case state_of w p of
             Pending \<Rightarrow> (fr, w)
           | Rejected e \<Rightarrow> (Thrown e, w)
           | Fulfilled Undefined \<Rightarrow> (Returned None, w)
           | Fulfilled d \<Rightarrow>
               (let w1 = w\<lparr>datastoreInstances := (datastoreInstances w)(f := None)\<rparr>;
                    (t, w2) = terminateDatastore w1 d
                in (Returned (Some t), w2)))
      | Returned x \<Rightarrow> (fr, w)
      | Thrown e \<Rightarrow> (fr, w))"

section \<open>The Firestore class and initializeFirestore\<close>

text \<open>
  Modelled from the spec: \<^verbatim>\<open>AsyncQueue.enqueueAndForgetEvenAfterShutdown\<close>
  (util/async_queue, not among the sources). Section 4.3: the submission mode that
  is accepted whether or not shutdown was requested; tasks run in submission order.
\<close>

definition enqueueAndForgetEvenAfterShutdown :: "AsyncQueue \<Rightarrow> task \<Rightarrow> AsyncQueue" where
  "enqueueAndForgetEvenAfterShutdown q t = q\<lparr>tasks := tasks q @ [t]\<rparr>"

definition not_running :: error where
  "not_running = FirestoreError FAILED_PRECONDITION
     (''Persistence can only be cleared before a Firestore instance is '' @
      ''initialized or after it is terminated.'')"

text \<open>
  \<^verbatim>\<open>Firestore._clearPersistence(delegate)\<close>. The enqueued closure is the task; what
  the delegate answers is known only when the task runs.
\<close>

definition clearPersistence :: "world \<Rightarrow> firestore_ref \<Rightarrow> error + (pid \<times> world)" where
  "clearPersistence w f =
     (if hasFirestoreClient w f then Inl not_running
      else
        let (deferred, w1) = new_promise w (Promise Pending);
            fs = firestores w1 f
        in Inr (deferred,
                w1\<lparr>firestores := (firestores w1)
                     (f := fs\<lparr>fs_queue := enqueueAndForgetEvenAfterShutdown (fs_queue fs)
                                              (ClearPersistenceTask deferred)\<rparr>)\<rparr>))"

text \<open>
  The queue runs its first task: the closure calls
  \<^verbatim>\<open>delegate(this._databaseId, this._persistenceKey)\<close>, awaits it, and resolves or
  rejects the deferred with the delegate's outcome (\<open>None\<close>: it resolved).
\<close>

definition outcome :: "error option \<Rightarrow> pstate" where
  "outcome r = (case r of None \<Rightarrow> Fulfilled Undefined | Some e \<Rightarrow> Rejected e)"

definition run_task :: "world \<Rightarrow> firestore_ref \<Rightarrow> error option \<Rightarrow> world" where
  "run_task w f r =
     (let fs = firestores w f in
      case tasks (fs_queue fs) of
        [] \<Rightarrow> w
      | ClearPersistenceTask deferred # rest \<Rightarrow>
          w\<lparr>firestores := (firestores w)(f := fs\<lparr>fs_queue := (fs_queue fs)\<lparr>tasks := rest\<rparr>\<rparr>),
            delegateCalls := delegateCalls w @ [(fs_databaseId fs, fs_persistenceKey fs)],
            promises := settle (promises w) deferred (outcome r)\<rparr>)"

text \<open>
  What \<^verbatim>\<open>initializeFirestore\<close> uses and the sources do not hold: the two constants
  \<^verbatim>\<open>CACHE_SIZE_UNLIMITED\<close> and \<^verbatim>\<open>LruParams.MINIMUM_CACHE_SIZE_BYTES\<close>, the rendering of
  a number in a template string, the component provider's \<^verbatim>\<open>getImmediate()\<close> and the
  lite class's \<^verbatim>\<open>_configureClient\<close> (which may throw). They are parameters.
\<close>

record 'app externals =
  CACHE_SIZE_UNLIMITED :: number
  MINIMUM_CACHE_SIZE_BYTES :: number
  numberToString :: "number \<Rightarrow> string"
  getImmediate :: "world \<Rightarrow> 'app \<Rightarrow> firestore_ref \<times> world"
  configureClient :: "world \<Rightarrow> firestore_ref \<Rightarrow> Settings \<Rightarrow> error option \<times> world"

definition cache_too_small :: "'app externals \<Rightarrow> error" where
  "cache_too_small X = FirestoreError INVALID_ARGUMENT
     (''cacheSizeBytes must be at least '' @ numberToString X (MINIMUM_CACHE_SIZE_BYTES X))"

definition initializeFirestore ::
  "'app externals \<Rightarrow> world \<Rightarrow> 'app \<Rightarrow> Settings \<Rightarrow> (error + firestore_ref) \<times> world" where
  "initializeFirestore X w app s =
     (let (firestore, w1) = getImmediate X w app in
      if (case cacheSizeBytes s of
            None \<Rightarrow> False
          | Some n \<Rightarrow> strict_neq n (CACHE_SIZE_UNLIMITED X) \<and>
                      number_lt n (MINIMUM_CACHE_SIZE_BYTES X))
      then (Inl (cache_too_small X), w1)
      else
        (case configureClient X w1 firestore s of
           (Some e, w2) \<Rightarrow> (Inl e, w2)
         | (None, w2) \<Rightarrow> (Inr firestore, w2)))"

section \<open>The environment and traces\<close>

text \<open>
  Modelled from the spec: how the promises of the absent collaborators settle.
  Section 3: Starting to Running on successful start; section 7: a failure during
  \<open>start()\<close> leaves the runtime in Terminated and is reported to the caller's
  future; section 3: Terminating to Terminated on completion.
\<close>

definition start_settles :: "world \<Rightarrow> cid \<Rightarrow> error option \<Rightarrow> world" where
  "start_settles w c r =
     (if c < length (clients w) \<and> runtime (clients w ! c) = Starting then
        (case startPromise (clients w ! c) of
           None \<Rightarrow> w
         | Some p \<Rightarrow>
             w\<lparr>promises := settle (promises w) p (outcome r),
               clients := (clients w)[c := (clients w ! c)
                 \<lparr>runtime := (case r of None \<Rightarrow> Running | Some e \<Rightarrow> Terminated)\<rparr>]\<rparr>)
      else w)"

definition terminate_settles :: "world \<Rightarrow> cid \<Rightarrow> world" where
  "terminate_settles w c =
     (if c < length (clients w) \<and> runtime (clients w ! c) = Terminating then
        (case terminatePromise (clients w ! c) of
           None \<Rightarrow> w
         | Some p \<Rightarrow>
             w\<lparr>promises := settle (promises w) p (Fulfilled Undefined),
               clients := (clients w)[c := (clients w ! c)\<lparr>runtime := Terminated\<rparr>]\<rparr>)
      else w)"

definition connection_settles :: "world \<Rightarrow> nat \<Rightarrow> error option \<Rightarrow> world" where
  "connection_settles w i r =
     (if i < length (connections w) then
        w\<lparr>promises := settle (promises w) (snd (connections w ! i))
                         (case r of None \<Rightarrow> Fulfilled (Connection i) | Some e \<Rightarrow> Rejected e)\<rparr>
      else w)"

definition datastore_terminated :: "world \<Rightarrow> nat \<Rightarrow> error option \<Rightarrow> world" where
  "datastore_terminated w i r =
     (if i < length (terminatedDatastores w) then
        w\<lparr>promises := settle (promises w) (snd (terminatedDatastores w ! i)) (outcome r)\<rparr>
      else w)"

text \<open>
  Modelled from the spec: the \<^verbatim>\<open>_terminated\<close> flag belongs to the lite Firestore class
  (lite/src/api/database, not among the sources); section 3: the terminal state is
  absorbing, so the flag is only ever set.
\<close>

definition mark_terminated :: "world \<Rightarrow> firestore_ref \<Rightarrow> world" where
  "mark_terminated w f =
     w\<lparr>firestores := (firestores w)(f := (firestores w f)\<lparr>fs_terminated := True\<rparr>)\<rparr>"

text \<open>
  Everything that can happen to the world: a call of one of the functions above, the
  resumption of a suspended \<^verbatim>\<open>remove\<close> (with whatever frame it was suspended in),
  and the environment's moves. A call that throws leaves the world as it was.
\<close>

datatype event =
    GetFirestoreClient firestore_ref
  | InitializeFirestoreClient firestore_ref ComponentProvider PersistenceSettings
  | ResumeRemoveFirestoreClient firestore_ref async_frame
  | GetDatastore firestore_ref
  | ResumeRemoveDatastore firestore_ref async_frame
  | ClearPersistence firestore_ref
  | RunTask firestore_ref "error option"
  | StartSettles cid "error option"
  | TerminateSettles cid
  | ConnectionSettles nat "error option"
  | DatastoreTerminated nat "error option"
  | MarkTerminated firestore_ref

fun step :: "world \<Rightarrow> event \<Rightarrow> world" where
  "step w (GetFirestoreClient f) =
     (case getFirestoreClient w f of Inl e \<Rightarrow> w | Inr (r, w1) \<Rightarrow> w1)"
| "step w (InitializeFirestoreClient f cp ps) =
     (case initializeFirestoreClient w f cp ps of Inl e \<Rightarrow> w | Inr (r, w1) \<Rightarrow> w1)"
| "step w (ResumeRemoveFirestoreClient f fr) = snd (removeFirestoreClient_resume w f fr)"
| "step w (GetDatastore f) = snd (getDatastore w f)"
| "step w (ResumeRemoveDatastore f fr) = snd (removeDatastore_resume w f fr)"
| "step w (ClearPersistence f) =
     (case clearPersistence w f of Inl e \<Rightarrow> w | Inr (r, w1) \<Rightarrow> w1)"
| "step w (RunTask f r) = run_task w f r"
| "step w (StartSettles c r) = start_settles w c r"
| "step w (TerminateSettles c) = terminate_settles w c"
| "step w (ConnectionSettles i r) = connection_settles w i r"
| "step w (DatastoreTerminated i r) = datastore_terminated w i r"
| "step w (MarkTerminated f) = mark_terminated w f"

definition run :: "world \<Rightarrow> event list \<Rightarrow> world" where
  "run w es = foldl step w es"

fun removes_client :: "firestore_ref \<Rightarrow> event \<Rightarrow> bool" where
  "removes_client f (ResumeRemoveFirestoreClient g fr) = (g = f)"
| "removes_client f e = False"

fun removes_datastore :: "firestore_ref \<Rightarrow> event \<Rightarrow> bool" where
  "removes_datastore f (ResumeRemoveDatastore g fr) = (g = f)"
| "removes_datastore f e = False"

text \<open>
  One promise heap keeps another: every promise settled in the first has the same
  state in the second.
\<close>

definition keeps :: "promise list \<Rightarrow> promise list \<Rightarrow> bool" where
  "keeps ps ps' =
     (\<forall>p. promise_state ps p \<noteq> Pending \<longrightarrow> promise_state ps' p = promise_state ps p)"

text \<open>
  The constructor of the \<^verbatim>\<open>Firestore\<close> class (a new \<^verbatim>\<open>AsyncQueue\<close>, no settings yet),
  the world when both modules have just been loaded, and a world with handles of
  one project to run the functions on.
\<close>

definition newFirestore :: "DatabaseId \<Rightarrow> string \<Rightarrow> CredentialsProvider \<Rightarrow> Firestore" where
  "newFirestore d k cr =
     \<lparr>fs_databaseId = d, fs_persistenceKey = k, fs_credentials = cr,
      fs_queue = \<lparr>tasks = [], isShuttingDown = False\<rparr>,
      fs_settings = None, fs_terminated = False\<rparr>"

definition initial_world :: "(firestore_ref \<Rightarrow> Firestore) \<Rightarrow> world" where
  "initial_world fs =
     \<lparr>firestores = fs, firestoreClientInstances = Map.empty, datastoreInstances = Map.empty,
      promises = [], clients = [], connections = [], terminatedDatastores = [],
      delegateCalls = []\<rparr>"

definition example_world :: world where
  "example_world =
     initial_world (\<lambda>f. newFirestore (DatabaseId ''project'' ''(default)'') ''[DEFAULT]'' 0)"

text \<open>The example world after handle 0 was terminated before any use.\<close>
definition terminated_world :: world where
  "terminated_world = mark_terminated example_world 0"

text \<open>
  The example world after handle 0 was provisioned in both modules and both
  constructions failed, and the same after both succeeded.
\<close>
definition failed_world :: world where
  "failed_world = run example_world
     [GetFirestoreClient 0, StartSettles 0 (Some (ExternalError ''unavailable'')),
      GetDatastore 0, ConnectionSettles 0 (Some (ExternalError ''unavailable''))]"

definition running_world :: world where
  "running_world = run example_world
     [GetFirestoreClient 0, StartSettles 0 None, GetDatastore 0, ConnectionSettles 0 None]"



text \<open>
  The example world with handle 1 configured for a local emulator: a host of its
  own and no ssl.
\<close>
definition emulator_world :: world where
  "emulator_world = example_world\<lparr>firestores := (firestores example_world)
     (1 := (firestores example_world 1)\<lparr>fs_settings :=
        Some \<lparr>host = Some ''localhost:8080'', ssl = Some False, cacheSizeBytes = None\<rparr>\<rparr>)\<rparr>"


text \<open>The queue of a handle runs its next tasks, one delegate outcome for each.\<close>
fun run_tasks :: "world \<Rightarrow> firestore_ref \<Rightarrow> error option list \<Rightarrow> world" where
  "run_tasks w f [] = w"
| "run_tasks w f (r # rs) = run_tasks (run_task w f r) f rs"

text \<open>
  Externals to run \<^verbatim>\<open>initializeFirestore\<close> on: a minimum of 1 MiB, the sentinel -1, a
  provider that maps an app to the handle of the same number, and a
  \<^verbatim>\<open>_configureClient\<close> that stores the settings.
\<close>
definition example_externals :: "nat externals" where
  "example_externals =
     \<lparr>CACHE_SIZE_UNLIMITED = Num (- 1), MINIMUM_CACHE_SIZE_BYTES = Num 1048576,
      numberToString = (\<lambda>n. ''1048576''),
      getImmediate = (\<lambda>w app. (app, w)),
      configureClient = (\<lambda>w f s.
        (None, w\<lparr>firestores := (firestores w)(f := (firestores w f)\<lparr>fs_settings := Some s\<rparr>)\<rparr>))\<rparr>"





section \<open>Promise heaps\<close>

lemma promise_state_settled_lt: "promise_state ps p \<noteq> Pending \<Longrightarrow> p < length ps"
  by (subst (asm) promise_state.simps) (simp split: if_splits)

lemma promise_state_append: "p < length ps \<Longrightarrow> promise_state (ps @ xs) p = promise_state ps p"
proof (induction ps p rule: promise_state.induct)
  case (1 ps p)
  show ?case
  proof (cases "ps ! p")
    case (Promise s)
    with 1(2) show ?thesis
      by (simp add: promise_state.simps [of "ps @ xs" p] promise_state.simps [of ps p] nth_append)
  next
    case (Then q k)
    show ?thesis
    proof (cases "q < p")
      case True
      with 1 Then have "promise_state (ps @ xs) q = promise_state ps q" by simp
      with Then True 1(2) show ?thesis
        by (simp add: promise_state.simps [of "ps @ xs" p] promise_state.simps [of ps p] nth_append)
    next
      case False
      with Then 1(2) show ?thesis
        by (simp add: promise_state.simps [of "ps @ xs" p] promise_state.simps [of ps p] nth_append)
    qed
  qed
qed

lemma promise_state_settle:
  "promise_state ps q \<noteq> Pending \<Longrightarrow> promise_state (settle ps p s) q = promise_state ps q"
proof (induction ps q rule: promise_state.induct)
  case (1 ps q)
  from 1(2) have lt: "q < length ps" by (rule promise_state_settled_lt)
  have len: "length (settle ps p s) = length ps" by (simp add: settle_def)
  show ?case
  proof (cases "ps ! q")
    case (Promise s')
    with 1(2) lt have "s' \<noteq> Pending" by (simp add: promise_state.simps [of ps q])
    with Promise lt have "settle ps p s ! q = ps ! q"
      by (auto simp: settle_def nth_list_update)
    with Promise lt len show ?thesis
      by (simp add: promise_state.simps [of "settle ps p s" q] promise_state.simps [of ps q])
  next
    case (Then r k)
    with lt have same: "settle ps p s ! q = ps ! q"
      by (auto simp: settle_def nth_list_update)
    show ?thesis
    proof (cases "r < q")
      case True
      with Then lt 1(2) have "promise_state ps r \<noteq> Pending"
        by (auto simp: promise_state.simps [of ps q])
      with 1(1) lt Then True have "promise_state (settle ps p s) r = promise_state ps r" by simp
      with Then True lt len same show ?thesis
        by (simp add: promise_state.simps [of "settle ps p s" q] promise_state.simps [of ps q])
    next
      case False
      with Then lt len same show ?thesis
        by (simp add: promise_state.simps [of "settle ps p s" q] promise_state.simps [of ps q])
    qed
  qed
qed

lemma promise_state_new: "promise_state (ps @ [Promise s]) (length ps) = s"
  by (simp add: promise_state.simps [of "ps @ [Promise s]" "length ps"])

lemma promise_state_new_then:
  "q < length ps \<Longrightarrow>
   promise_state (ps @ [Then q k]) (length ps) = then_state k (promise_state ps q)"
  by (simp add: promise_state.simps [of "ps @ [Then q k]" "length ps"] promise_state_append)



lemma keeps_refl: "keeps ps ps"
  by (simp add: keeps_def)

lemma keeps_append: "keeps ps (ps @ xs)"
  by (auto simp: keeps_def dest: promise_state_settled_lt intro: promise_state_append)

lemma keeps_settle: "keeps ps (settle ps p s)"
  by (simp add: keeps_def promise_state_settle)

lemma keeps_trans: "keeps a b \<Longrightarrow> keeps b c \<Longrightarrow> keeps a c"
  by (auto simp: keeps_def)

section \<open>What a step of the world preserves\<close>

lemmas op_defs =
  getFirestoreClient_def initializeFirestoreClient_def hasFirestoreClient_def getSettings_def
  newFirestoreClient_def start_def new_promise_def terminate_def
  removeFirestoreClient_resume_def getDatastore_def newConnection_def terminateDatastore_def
  removeDatastore_resume_def clearPersistence_def run_task_def start_settles_def
  terminate_settles_def connection_settles_def datastore_terminated_def mark_terminated_def

lemmas example_defs =
  example_world_def initial_world_def newFirestore_def emptySettings_def nullish_def
  outcome_def settle_def state_of_def run_def DEFAULT_HOST_def DEFAULT_SSL_def
  enqueueAndForgetEvenAfterShutdown_def async_state_def removeFirestoreClient_def
  removeDatastore_def

lemma step_keeps: "keeps (promises w) (promises (step w e))"
  by (cases e)
     (auto simp: op_defs Let_def keeps_refl keeps_append keeps_settle
           split: sum.splits option.splits prod.splits if_splits async_frame.splits
                  pstate.splits pvalue.splits list.splits task.splits)

lemma step_entry:
  "firestoreClientInstances w f = Some p \<Longrightarrow> \<not> removes_client f e
   \<Longrightarrow> firestoreClientInstances (step w e) f = Some p"
  by (cases e)
     (auto simp: op_defs Let_def
           split: sum.splits option.splits prod.splits if_splits async_frame.splits
                  pstate.splits pvalue.splits list.splits task.splits)

lemma step_datastore_entry:
  "datastoreInstances w f = Some p \<Longrightarrow> \<not> removes_datastore f e
   \<Longrightarrow> datastoreInstances (step w e) f = Some p"
  by (cases e)
     (auto simp: op_defs Let_def
           split: sum.splits option.splits prod.splits if_splits async_frame.splits
                  pstate.splits pvalue.splits list.splits task.splits)

lemma step_terminated:
  "fs_terminated (firestores w f) \<Longrightarrow> fs_terminated (firestores (step w e) f)"
  by (cases e)
     (auto simp: op_defs Let_def
           split: sum.splits option.splits prod.splits if_splits async_frame.splits
                  pstate.splits pvalue.splits list.splits task.splits)

lemma run_Nil: "run w [] = w"
  by (simp add: run_def)

lemma run_Cons: "run w (e # es) = run (step w e) es"
  by (simp add: run_def)

lemma run_keeps: "keeps (promises w) (promises (run w es))"
proof (induction es arbitrary: w)
  case Nil
  show ?case by (simp add: run_Nil keeps_refl)
next
  case (Cons e es)
  have "keeps (promises w) (promises (step w e))" by (rule step_keeps)
  moreover have "keeps (promises (step w e)) (promises (run (step w e) es))" by (rule Cons.IH)
  ultimately show ?case by (simp add: run_Cons) (rule keeps_trans)
qed

lemma run_state: "state_of w p \<noteq> Pending \<Longrightarrow> state_of (run w es) p = state_of w p"
  using run_keeps [of w es] by (simp add: keeps_def state_of_def)

lemma run_entry:
  "firestoreClientInstances w f = Some p \<Longrightarrow> \<forall>e\<in>set es. \<not> removes_client f e
   \<Longrightarrow> firestoreClientInstances (run w es) f = Some p"
  by (induction es arbitrary: w) (simp_all add: run_Nil run_Cons step_entry)

lemma run_datastore_entry:
  "datastoreInstances w f = Some p \<Longrightarrow> \<forall>e\<in>set es. \<not> removes_datastore f e
   \<Longrightarrow> datastoreInstances (run w es) f = Some p"
  by (induction es arbitrary: w) (simp_all add: run_Nil run_Cons step_datastore_entry)

lemma run_terminated:
  "fs_terminated (firestores w f) \<Longrightarrow> fs_terminated (firestores (run w es) f)"
  by (induction es arbitrary: w) (simp_all add: run_Nil run_Cons step_terminated)














section \<open>The provisioning functions, case by case\<close>

lemma initializeFirestoreClient_Inl:
  "fs_terminated (firestores w f) \<or> firestoreClientInstances w f \<noteq> None
   \<Longrightarrow> initializeFirestoreClient w f cp ps = Inl already_started"
  by (auto simp: initializeFirestoreClient_def hasFirestoreClient_def)

lemma initializeFirestoreClient_Inr:
  assumes "\<not> fs_terminated (firestores w f)" and "firestoreClientInstances w f = None"
  shows "\<exists>w1. initializeFirestoreClient w f cp ps = Inr (length (promises w), w1)
    \<and> promises w1 = promises w @
        [Promise Pending, Then (length (promises w)) (Return (Client (length (clients w))))]
    \<and> firestoreClientInstances w1 = (firestoreClientInstances w)(f \<mapsto> Suc (length (promises w)))
    \<and> datastoreInstances w1 = datastoreInstances w
    \<and> connections w1 = connections w
    \<and> clients w1 = clients w @
        [\<lparr>clientCredentials = fs_credentials (firestores w f), clientQueue = f,
          runtime = Starting,
          startArgs = Some (DatabaseInfo (fs_databaseId (firestores w f))
             (fs_persistenceKey (firestores w f))
             (nullish (host (fst (getSettings w f))) DEFAULT_HOST)
             (nullish (ssl (fst (getSettings w f))) DEFAULT_SSL) False, cp, ps),
          startPromise = Some (length (promises w)), terminatePromise = None\<rparr>]
    \<and> (\<forall>g. fs_terminated (firestores w1 g) = fs_terminated (firestores w g))"
  using assms
  by (simp add: initializeFirestoreClient_def hasFirestoreClient_def getSettings_def
      newFirestoreClient_def start_def new_promise_def Let_def split: option.splits)

lemma getFirestoreClient_entry:
  "getFirestoreClient w f = Inr (r, w1) \<Longrightarrow> r \<noteq> None \<and> firestoreClientInstances w1 f = r"
  by (auto simp: getFirestoreClient_def initializeFirestoreClient_def hasFirestoreClient_def
      getSettings_def newFirestoreClient_def start_def new_promise_def Let_def
      split: if_splits sum.splits option.splits prod.splits)

lemma getFirestoreClient_existing:
  "firestoreClientInstances w f = Some p \<Longrightarrow> \<not> fs_terminated (firestores w f)
   \<Longrightarrow> getFirestoreClient w f = Inr (Some p, w)"
  by (simp add: getFirestoreClient_def)

lemma getDatastore_entry:
  "getDatastore w f = (r, w1) \<Longrightarrow> r \<noteq> None \<and> datastoreInstances w1 f = r"
  by (auto simp: getDatastore_def getSettings_def newConnection_def new_promise_def Let_def
      split: if_splits option.splits prod.splits)

lemma getDatastore_existing:
  "datastoreInstances w f = Some p \<Longrightarrow> getDatastore w f = (Some p, w)"
  by (simp add: getDatastore_def)



section \<open>Single flight\<close>

text \<open>
  C1, as stated, fails in the full SDK: two calls of \<open>getOrCreate(H)\<close> with no
  removal of \<open>H\<close> in between need not return the same promise. When the handle's
  \<^verbatim>\<open>_terminated\<close> flag is set between them, the entry is still in the map, but the
  second call throws.
\<close>

theorem second_call_terminated_counterexample:
  "getFirestoreClient example_world 0
     = Inr (Some 1, step example_world (GetFirestoreClient 0))
   \<and> \<not> removes_client 0 (MarkTerminated 0)
   \<and> \<not> removes_datastore 0 (MarkTerminated 0)
   \<and> firestoreClientInstances
       (run (step example_world (GetFirestoreClient 0)) [MarkTerminated 0]) 0 = Some 1
   \<and> getFirestoreClient (run (step example_world (GetFirestoreClient 0)) [MarkTerminated 0]) 0
     = Inl already_terminated"
  by (simp add: example_defs op_defs Let_def)

text \<open>
  C1, amended. A call of \<open>getOrCreate(H)\<close> that returns, returns the promise stored
  in the map for \<open>H\<close>. After any events without a resumed removal of \<open>H\<close> (other
  handles, settlements, the other module), that promise is still the entry of \<open>H\<close>,
  and a second call returns it and constructs nothing: it leaves the world as it
  finds it. In the full SDK this is so when the handle's \<^verbatim>\<open>_terminated\<close> flag is
  unset at the second call; when the flag is set, the second call throws the
  already-terminated error instead. The lite SDK has no such check. A promise that
  has fulfilled keeps its value, so both callers get the same client.
\<close>

theorem single_flight:
  assumes "\<forall>e\<in>set es. \<not> removes_client f e \<and> \<not> removes_datastore f e"
  shows "(getFirestoreClient w f = Inr (r, w1) \<longrightarrow>
            r \<noteq> None
            \<and> firestoreClientInstances w1 f = r
            \<and> firestoreClientInstances (run w1 es) f = r
            \<and> getFirestoreClient (run w1 es) f
                = (if fs_terminated (firestores (run w1 es) f) then Inl already_terminated
                   else Inr (r, run w1 es)))
       \<and> (getDatastore w f = (d, v1) \<longrightarrow>
            d \<noteq> None
            \<and> datastoreInstances v1 f = d
            \<and> datastoreInstances (run v1 es) f = d
            \<and> getDatastore (run v1 es) f = (d, run v1 es))
       \<and> (\<forall>u p v. state_of u p = Fulfilled v \<longrightarrow> state_of (run u es) p = Fulfilled v)"
proof -
  have c1: "getFirestoreClient w f = Inr (r, w1) \<longrightarrow>
            r \<noteq> None
            \<and> firestoreClientInstances w1 f = r
            \<and> firestoreClientInstances (run w1 es) f = r
            \<and> getFirestoreClient (run w1 es) f
                = (if fs_terminated (firestores (run w1 es) f) then Inl already_terminated
                   else Inr (r, run w1 es))"
  proof
    assume a: "getFirestoreClient w f = Inr (r, w1)"
    then obtain p where p: "r = Some p" "firestoreClientInstances w1 f = Some p"
      using getFirestoreClient_entry [of w f r w1] by auto
    from p assms have e: "firestoreClientInstances (run w1 es) f = Some p"
      by (simp add: run_entry)
    then have "getFirestoreClient (run w1 es) f
        = (if fs_terminated (firestores (run w1 es) f) then Inl already_terminated
           else Inr (Some p, run w1 es))"
      by (simp add: getFirestoreClient_def)
    with p e show "r \<noteq> None
            \<and> firestoreClientInstances w1 f = r
            \<and> firestoreClientInstances (run w1 es) f = r
            \<and> getFirestoreClient (run w1 es) f
                = (if fs_terminated (firestores (run w1 es) f) then Inl already_terminated
                   else Inr (r, run w1 es))"
      by simp
  qed
  have c2: "getDatastore w f = (d, v1) \<longrightarrow>
            d \<noteq> None
            \<and> datastoreInstances v1 f = d
            \<and> datastoreInstances (run v1 es) f = d
            \<and> getDatastore (run v1 es) f = (d, run v1 es)"
  proof
    assume a: "getDatastore w f = (d, v1)"
    then obtain p where p: "d = Some p" "datastoreInstances v1 f = Some p"
      using getDatastore_entry [of w f d v1] by auto
    from p assms have e: "datastoreInstances (run v1 es) f = Some p"
      by (simp add: run_datastore_entry)
    with p show "d \<noteq> None
            \<and> datastoreInstances v1 f = d
            \<and> datastoreInstances (run v1 es) f = d
            \<and> getDatastore (run v1 es) f = (d, run v1 es)"
      by (simp add: getDatastore_existing)
  qed
  have c3: "\<forall>u p v. state_of u p = Fulfilled v \<longrightarrow> state_of (run u es) p = Fulfilled v"
    by (simp add: run_state)
  show ?thesis by (intro conjI) (rule c1, rule c2, rule c3)
qed

theorem single_flight_witness:
  "getFirestoreClient
     (run (step example_world (GetFirestoreClient 0))
        [StartSettles 0 None, MarkTerminated 1, GetDatastore 0]) 0
   = Inr (Some 1, run (step example_world (GetFirestoreClient 0))
        [StartSettles 0 None, MarkTerminated 1, GetDatastore 0])
   \<and> firestoreClientInstances
     (run (step example_world (GetFirestoreClient 0))
        [StartSettles 0 None, MarkTerminated 1, GetDatastore 0]) 0 = Some 1
   \<and> getDatastore
     (run (step example_world (GetDatastore 0))
        [StartSettles 0 None, MarkTerminated 1, GetDatastore 0]) 0
   = (Some 1, run (step example_world (GetDatastore 0))
        [StartSettles 0 None, MarkTerminated 1, GetDatastore 0])"
proof -
  let ?es = "[StartSettles 0 None, MarkTerminated 1, GetDatastore 0]"
  let ?w1 = "step example_world (GetFirestoreClient 0)"
  let ?v1 = "step example_world (GetDatastore 0)"
  have h: "\<forall>e\<in>set ?es. \<not> removes_client 0 e \<and> \<not> removes_datastore 0 e"
    by simp
  have a: "getFirestoreClient example_world 0 = Inr (Some 1, ?w1)"
    by (simp add: example_defs op_defs Let_def)
  have t: "\<not> fs_terminated (firestores (run ?w1 ?es) 0)"
    by (simp add: example_defs op_defs Let_def)
  have b: "getDatastore example_world 0 = (Some 1, ?v1)"
    by (simp add: example_defs op_defs Let_def)
  note s = single_flight [OF h, where w = example_world and r = "Some 1" and ?w1.0 = ?w1
      and d = "Some 1" and ?v1.0 = ?v1]
  from s [THEN conjunct1, rule_format, OF a] t
  have c1: "getFirestoreClient (run ?w1 ?es) 0 = Inr (Some 1, run ?w1 ?es)
      \<and> firestoreClientInstances (run ?w1 ?es) 0 = Some 1"
    by simp
  from s [THEN conjunct2, THEN conjunct1, rule_format, OF b]
  have c2: "getDatastore (run ?v1 ?es) 0 = (Some 1, run ?v1 ?es)"
    by simp
  from c1 c2 show ?thesis by simp
qed

section \<open>The guard of initializeFirestoreClient\<close>

text \<open>
  C2, as stated, fails: \<open>initializeWithProvider\<close> does not fail exactly when an
  entry exists on a handle not terminated. On a terminated handle without an
  entry it throws the same error; and it throws it for an entry whose runtime has
  ended in Terminated, after a failed start.
\<close>

theorem initialize_terminated_counterexample:
  "initializeFirestoreClient terminated_world 0 IndexedDbComponentProvider
       (PersistenceSettings True None None) = Inl already_started
   \<and> \<not> hasFirestoreClient terminated_world 0
   \<and> fs_terminated (firestores terminated_world 0)
   \<and> initializeFirestoreClient failed_world 0 IndexedDbComponentProvider
       (PersistenceSettings True None None) = Inl already_started
   \<and> hasFirestoreClient failed_world 0
   \<and> runtime (clients failed_world ! 0) = Terminated"
  by (simp add: terminated_world_def failed_world_def example_defs op_defs Let_def)

text \<open>
  C2, amended. \<open>initializeWithProvider(H, provider, settings)\<close> fails exactly
  when an entry exists for \<open>H\<close> or \<open>H\<close> is terminated; the error is the
  FAILED_PRECONDITION of the persistence guard, thrown before anything is written
  (the world is as before); and after a call that succeeded, a second call fails
  with that error as long as no removal of \<open>H\<close> has been resumed.
\<close>

theorem initialize_guard:
  "((\<exists>e. initializeFirestoreClient w f cp ps = Inl e)
       = (hasFirestoreClient w f \<or> fs_terminated (firestores w f)))
   \<and> (initializeFirestoreClient w f cp ps = Inl e \<longrightarrow>
         e = already_started \<and> step w (InitializeFirestoreClient f cp ps) = w)
   \<and> (initializeFirestoreClient w f cp ps = Inr (ip, w1)
        \<and> (\<forall>e\<in>set es. \<not> removes_client f e) \<longrightarrow>
         hasFirestoreClient w1 f
         \<and> initializeFirestoreClient (run w1 es) f cp' ps' = Inl already_started)"
proof (intro conjI impI)
  show "(\<exists>e. initializeFirestoreClient w f cp ps = Inl e)
          = (hasFirestoreClient w f \<or> fs_terminated (firestores w f))"
  proof (cases "hasFirestoreClient w f \<or> fs_terminated (firestores w f)")
    case True
    then show ?thesis
      using initializeFirestoreClient_Inl [of w f cp ps] by (auto simp: hasFirestoreClient_def)
  next
    case False
    then show ?thesis
      using initializeFirestoreClient_Inr [of w f cp ps] by (auto simp: hasFirestoreClient_def)
  qed
next
  assume a: "initializeFirestoreClient w f cp ps = Inl e"
  then show "e = already_started"
    by (auto simp: initializeFirestoreClient_def Let_def split: if_splits prod.splits)
  from a show "step w (InitializeFirestoreClient f cp ps) = w" by simp
next
  assume a: "initializeFirestoreClient w f cp ps = Inr (ip, w1)
        \<and> (\<forall>e\<in>set es. \<not> removes_client f e)"
  then have pre: "\<not> fs_terminated (firestores w f)" "firestoreClientInstances w f = None"
    by (auto simp: initializeFirestoreClient_def hasFirestoreClient_def split: if_splits)
  from initializeFirestoreClient_Inr [OF pre, of cp ps] a
  have e: "firestoreClientInstances w1 f = Some (Suc (length (promises w)))" by auto
  then show "hasFirestoreClient w1 f" by (simp add: hasFirestoreClient_def)
  from e a have "firestoreClientInstances (run w1 es) f = Some (Suc (length (promises w)))"
    by (simp add: run_entry)
  then show "initializeFirestoreClient (run w1 es) f cp' ps' = Inl already_started"
    by (simp add: initializeFirestoreClient_Inl)
qed

theorem initialize_guard_witness:
  "initializeFirestoreClient
     (run (step example_world (InitializeFirestoreClient 0 IndexedDbComponentProvider
              (PersistenceSettings True None None)))
          [StartSettles 0 None, GetFirestoreClient 0])
     0 MultiTabIndexedDbComponentProvider (PersistenceSettings True None (Some True))
   = Inl already_started"
proof -
  let ?ps = "PersistenceSettings True None None"
  let ?w1 = "step example_world (InitializeFirestoreClient 0 IndexedDbComponentProvider ?ps)"
  let ?es = "[StartSettles 0 None, GetFirestoreClient 0]"
  have a: "initializeFirestoreClient example_world 0 IndexedDbComponentProvider ?ps
             = Inr (0, ?w1)"
    by (simp add: example_defs op_defs Let_def)
  have h: "\<forall>e\<in>set ?es. \<not> removes_client 0 e" by simp
  from initialize_guard [where w = example_world and f = 0 and cp = IndexedDbComponentProvider
      and ps = ?ps and ip = 0 and ?w1.0 = ?w1 and es = ?es] a h
  show ?thesis by blast
qed

section \<open>A terminated handle\<close>

text \<open>
  C7, as stated, fails. With the handle's \<^verbatim>\<open>_terminated\<close> flag set, not every
  operation requested on it fails with the error of \<open>getOrCreate\<close>:
  \<open>initializeWithProvider\<close> throws the error of its own guard, and clearing
  persistence is accepted. And a runtime that is in the Terminated state does not
  make \<open>getOrCreate\<close> throw: after a failed start, with the flag unset,
  \<open>getOrCreate\<close> returns the stored promise.
\<close>

theorem terminated_operations_counterexample:
  "fs_terminated (firestores terminated_world 0)
   \<and> initializeFirestoreClient terminated_world 0 IndexedDbComponentProvider
        (PersistenceSettings True None None) = Inl already_started
   \<and> already_started \<noteq> already_terminated
   \<and> \<not> isl (clearPersistence terminated_world 0)
   \<and> runtime (clients failed_world ! 0) = Terminated
   \<and> \<not> fs_terminated (firestores failed_world 0)
   \<and> getFirestoreClient failed_world 0 = Inr (Some 1, failed_world)"
  by (simp add: terminated_world_def failed_world_def example_defs op_defs already_started_def
      already_terminated_def promise_state.simps Let_def)

text \<open>
  C7, amended. On a handle whose \<^verbatim>\<open>_terminated\<close> flag is set, and at any later time,
  \<open>getOrCreate(H)\<close> throws FAILED_PRECONDITION "The client has already been
  terminated." before anything is written and creates no entry;
  \<open>initializeWithProvider(H, ...)\<close> throws as early, but the error of the
  persistence guard; clearing persistence is refused only for an existing entry.
\<close>

theorem terminated_handle:
  "fs_terminated (firestores w f) \<longrightarrow>
     getFirestoreClient (run w es) f = Inl already_terminated
     \<and> step (run w es) (GetFirestoreClient f) = run w es
     \<and> initializeFirestoreClient (run w es) f cp ps = Inl already_started
     \<and> step (run w es) (InitializeFirestoreClient f cp ps) = run w es
     \<and> (\<not> hasFirestoreClient (run w es) f \<longrightarrow> \<not> isl (clearPersistence (run w es) f))"
proof
  assume "fs_terminated (firestores w f)"
  then have t: "fs_terminated (firestores (run w es) f)" by (rule run_terminated)
  then have g: "getFirestoreClient (run w es) f = Inl already_terminated"
    by (simp add: getFirestoreClient_def)
  from t have i: "initializeFirestoreClient (run w es) f cp ps = Inl already_started"
    by (simp add: initializeFirestoreClient_Inl)
  have c: "\<not> hasFirestoreClient (run w es) f \<longrightarrow> \<not> isl (clearPersistence (run w es) f)"
    by (simp add: clearPersistence_def Let_def split: prod.splits)
  from g i c show "getFirestoreClient (run w es) f = Inl already_terminated
     \<and> step (run w es) (GetFirestoreClient f) = run w es
     \<and> initializeFirestoreClient (run w es) f cp ps = Inl already_started
     \<and> step (run w es) (InitializeFirestoreClient f cp ps) = run w es
     \<and> (\<not> hasFirestoreClient (run w es) f \<longrightarrow> \<not> isl (clearPersistence (run w es) f))"
    by simp
qed

theorem terminated_handle_witness:
  "getFirestoreClient (run terminated_world [GetDatastore 0, GetFirestoreClient 1]) 0
     = Inl already_terminated
   \<and> \<not> isl (clearPersistence (run terminated_world [GetDatastore 0, GetFirestoreClient 1]) 0)"
proof -
  have t: "fs_terminated (firestores terminated_world 0)"
    by (simp add: terminated_world_def example_defs op_defs)
  have h: "\<not> hasFirestoreClient (run terminated_world [GetDatastore 0, GetFirestoreClient 1]) 0"
    by (simp add: terminated_world_def example_defs op_defs Let_def)
  from terminated_handle [of terminated_world 0 "[GetDatastore 0, GetFirestoreClient 1]"] t h
  show ?thesis by blast
qed

section \<open>Removal\<close>

text \<open>
  C3, as stated, fails: when construction failed, \<open>remove(H)\<close> does not resolve
  successfully. The \<^verbatim>\<open>await\<close> of the rejected promise throws inside the async
  function, so the promise of \<open>remove(H)\<close> rejects with the construction error, in
  the full SDK and in the lite SDK.
\<close>

theorem remove_failed_counterexample:
  "removeFirestoreClient_resume failed_world 0 (removeFirestoreClient failed_world 0)
     = (Thrown (ExternalError ''unavailable''), failed_world)
   \<and> async_state failed_world (Thrown (ExternalError ''unavailable''))
     = Rejected (ExternalError ''unavailable'')
   \<and> removeDatastore_resume failed_world 0 (removeDatastore failed_world 0)
     = (Thrown (ExternalError ''unavailable''), failed_world)"
  by (simp add: failed_world_def example_defs op_defs promise_state.simps Let_def)

text \<open>
  C3, amended. \<open>remove(H)\<close> reads the stored promise at the call and waits for it
  to settle. With no entry (construction never started) it resolves successfully
  and changes nothing. While the stored promise is pending it stays suspended.
  When the stored promise has rejected (construction failed), \<open>remove(H)\<close> rejects
  with the same error and changes nothing: the entry stays. Only when a client
  (a datastore) was obtained does it delete the entry. The frame is the one of a
  call in any earlier world \<open>w0\<close>, resumed in the world \<open>w\<close>.
\<close>

theorem remove_waits:
  "(firestoreClientInstances w0 f = None \<longrightarrow>
      removeFirestoreClient_resume w f (removeFirestoreClient w0 f) = (Returned None, w)
      \<and> async_state w (Returned None) = Fulfilled Undefined)
   \<and> (firestoreClientInstances w0 f = Some p \<and> state_of w p = Pending \<longrightarrow>
      removeFirestoreClient_resume w f (removeFirestoreClient w0 f)
        = (removeFirestoreClient w0 f, w)
      \<and> async_state w (removeFirestoreClient w0 f) = Pending)
   \<and> (firestoreClientInstances w0 f = Some p \<and> state_of w p = Rejected e \<longrightarrow>
      removeFirestoreClient_resume w f (removeFirestoreClient w0 f) = (Thrown e, w)
      \<and> async_state w (Thrown e) = Rejected e)
   \<and> (firestoreClientInstances w0 f = Some p \<and> state_of w p = Fulfilled (Client c) \<longrightarrow>
      firestoreClientInstances (snd (removeFirestoreClient_resume w f (removeFirestoreClient w0 f))) f
        = None)
   \<and> (datastoreInstances w0 f = None \<longrightarrow>
      removeDatastore_resume w f (removeDatastore w0 f) = (Returned None, w))
   \<and> (datastoreInstances w0 f = Some p \<and> state_of w p = Pending \<longrightarrow>
      removeDatastore_resume w f (removeDatastore w0 f) = (removeDatastore w0 f, w)
      \<and> async_state w (removeDatastore w0 f) = Pending)
   \<and> (datastoreInstances w0 f = Some p \<and> state_of w p = Rejected e \<longrightarrow>
      removeDatastore_resume w f (removeDatastore w0 f) = (Thrown e, w))
   \<and> (datastoreInstances w0 f = Some p \<and> state_of w p = Fulfilled (Datastore x cr d) \<longrightarrow>
      datastoreInstances (snd (removeDatastore_resume w f (removeDatastore w0 f))) f = None)"
  by (simp add: removeFirestoreClient_def removeFirestoreClient_resume_def removeDatastore_def
      removeDatastore_resume_def async_state_def terminate_def terminateDatastore_def
      new_promise_def Let_def)

theorem remove_waits_witness:
  "removeFirestoreClient_resume failed_world 0 (removeFirestoreClient example_world 0)
     = (Returned None, failed_world)
   \<and> removeFirestoreClient_resume (step example_world (GetFirestoreClient 0)) 0
       (removeFirestoreClient (step example_world (GetFirestoreClient 0)) 0)
     = (removeFirestoreClient (step example_world (GetFirestoreClient 0)) 0,
        step example_world (GetFirestoreClient 0))
   \<and> removeFirestoreClient_resume failed_world 0 (removeFirestoreClient failed_world 0)
     = (Thrown (ExternalError ''unavailable''), failed_world)
   \<and> firestoreClientInstances
       (snd (removeFirestoreClient_resume running_world 0 (removeFirestoreClient running_world 0))) 0
     = None
   \<and> removeDatastore_resume failed_world 0 (removeDatastore example_world 0)
     = (Returned None, failed_world)
   \<and> removeDatastore_resume (step example_world (GetDatastore 0)) 0
       (removeDatastore (step example_world (GetDatastore 0)) 0)
     = (removeDatastore (step example_world (GetDatastore 0)) 0,
        step example_world (GetDatastore 0))
   \<and> removeDatastore_resume failed_world 0 (removeDatastore failed_world 0)
     = (Thrown (ExternalError ''unavailable''), failed_world)
   \<and> datastoreInstances
       (snd (removeDatastore_resume running_world 0 (removeDatastore running_world 0))) 0
     = None"
proof -
  let ?x = "ExternalError ''unavailable''"
  let ?pw = "step example_world (GetFirestoreClient 0)"
  let ?pv = "step example_world (GetDatastore 0)"
  have a: "firestoreClientInstances example_world 0 = None"
          "datastoreInstances example_world 0 = None"
    by (simp_all add: example_defs)
  have b: "firestoreClientInstances ?pw 0 = Some 1" "state_of ?pw 1 = Pending"
          "datastoreInstances ?pv 0 = Some 1" "state_of ?pv 1 = Pending"
    by (simp_all add: example_defs op_defs promise_state.simps Let_def)
  have c: "firestoreClientInstances failed_world 0 = Some 1" "state_of failed_world 1 = Rejected ?x"
          "datastoreInstances failed_world 0 = Some 3" "state_of failed_world 3 = Rejected ?x"
    by (simp_all add: failed_world_def example_defs op_defs promise_state.simps Let_def)
  have d: "firestoreClientInstances running_world 0 = Some 1"
          "state_of running_world 1 = Fulfilled (Client 0)"
          "datastoreInstances running_world 0 = Some 3"
          "state_of running_world 3
             = Fulfilled (Datastore (Connection 0) 0 (DatabaseId ''project'' ''(default)''))"
    by (simp_all add: running_world_def example_defs op_defs promise_state.simps Let_def)
  note r1 = remove_waits [where ?w0.0 = example_world and w = failed_world and f = 0]
  note r2 = remove_waits [where ?w0.0 = ?pw and w = ?pw and f = 0 and p = 1]
  note r3 = remove_waits [where ?w0.0 = ?pv and w = ?pv and f = 0 and p = 1]
  note r4 = remove_waits [where ?w0.0 = failed_world and w = failed_world and f = 0 and p = 1
      and e = ?x]
  note r5 = remove_waits [where ?w0.0 = failed_world and w = failed_world and f = 0 and p = 3
      and e = ?x]
  note r6 = remove_waits [where ?w0.0 = running_world and w = running_world and f = 0
      and p = 1 and c = 0]
  note r7 = remove_waits [where ?w0.0 = running_world and w = running_world and f = 0
      and p = 3 and x = "Connection 0" and cr = 0 and d = "DatabaseId ''project'' ''(default)''"]
  have c1: "removeFirestoreClient_resume failed_world 0 (removeFirestoreClient example_world 0)
     = (Returned None, failed_world)"
    using r1 a by simp
  have c2: "removeFirestoreClient_resume ?pw 0 (removeFirestoreClient ?pw 0)
     = (removeFirestoreClient ?pw 0, ?pw)"
    using r2 b by simp
  have c3: "removeFirestoreClient_resume failed_world 0 (removeFirestoreClient failed_world 0)
     = (Thrown ?x, failed_world)"
    using r4 c by simp
  have c4: "firestoreClientInstances
       (snd (removeFirestoreClient_resume running_world 0 (removeFirestoreClient running_world 0))) 0
     = None"
    using r6 d by simp
  have c5: "removeDatastore_resume failed_world 0 (removeDatastore example_world 0)
     = (Returned None, failed_world)"
    using r1 a by simp
  have c6: "removeDatastore_resume ?pv 0 (removeDatastore ?pv 0) = (removeDatastore ?pv 0, ?pv)"
    using r3 b by simp
  have c7: "removeDatastore_resume failed_world 0 (removeDatastore failed_world 0)
     = (Thrown ?x, failed_world)"
    using r5 c by simp
  have c8: "datastoreInstances
       (snd (removeDatastore_resume running_world 0 (removeDatastore running_world 0))) 0
     = None"
    using r7 d by simp
  show ?thesis
    by (intro conjI) (rule c1, rule c2, rule c3, rule c4, rule c5, rule c6, rule c7, rule c8)
qed

section \<open>Deletion and termination\<close>




section \<open>First access\<close>

text \<open>
  C5. On a handle with no entry that is not terminated, \<open>getOrCreate(H)\<close> returns
  a promise and has, by the time it returns, stored that promise in the map:
  \<open>hasEntry(H)\<close> is true while the promise is still pending. The client it created
  was started with the memory component provider and \<^verbatim>\<open>{durable: false}\<close>, and is
  still Starting.
\<close>

theorem getOrCreate_creates:
  assumes "\<not> fs_terminated (firestores w f)" and "firestoreClientInstances w f = None"
  shows "\<exists>w1 di. getFirestoreClient w f = Inr (Some (Suc (length (promises w))), w1)
     \<and> firestoreClientInstances w1 f = Some (Suc (length (promises w)))
     \<and> hasFirestoreClient w1 f
     \<and> state_of w1 (Suc (length (promises w))) = Pending
     \<and> length (clients w1) = Suc (length (clients w))
     \<and> runtime (clients w1 ! length (clients w)) = Starting
     \<and> startArgs (clients w1 ! length (clients w))
          = Some (di, MemoryComponentProvider, PersistenceSettings False None None)"
proof -
  from initializeFirestoreClient_Inr [OF assms, of MemoryComponentProvider
      "PersistenceSettings False None None"]
  obtain w1 where i: "initializeFirestoreClient w f MemoryComponentProvider
        (PersistenceSettings False None None) = Inr (length (promises w), w1)"
    and ps: "promises w1 = promises w @
        [Promise Pending, Then (length (promises w)) (Return (Client (length (clients w))))]"
    and e: "firestoreClientInstances w1 = (firestoreClientInstances w)(f \<mapsto> Suc (length (promises w)))"
    and cl: "clients w1 = clients w @
        [\<lparr>clientCredentials = fs_credentials (firestores w f), clientQueue = f,
          runtime = Starting,
          startArgs = Some (DatabaseInfo (fs_databaseId (firestores w f))
             (fs_persistenceKey (firestores w f))
             (nullish (host (fst (getSettings w f))) DEFAULT_HOST)
             (nullish (ssl (fst (getSettings w f))) DEFAULT_SSL) False,
             MemoryComponentProvider, PersistenceSettings False None None),
          startPromise = Some (length (promises w)), terminatePromise = None\<rparr>]"
    by blast
  from i e assms have g: "getFirestoreClient w f = Inr (Some (Suc (length (promises w))), w1)"
    by (simp add: getFirestoreClient_def)
  have "promise_state ((promises w @ [Promise Pending])
           @ [Then (length (promises w)) (Return (Client (length (clients w))))])
          (length (promises w @ [Promise Pending]))
        = then_state (Return (Client (length (clients w))))
            (promise_state (promises w @ [Promise Pending]) (length (promises w)))"
    by (rule promise_state_new_then) simp
  then have st: "state_of w1 (Suc (length (promises w))) = Pending"
    by (simp add: state_of_def ps promise_state_new)
  from g e st cl show ?thesis
    by (simp add: hasFirestoreClient_def)
qed

theorem getOrCreate_creates_witness:
  "getFirestoreClient example_world 0 = Inr (Some 1, step example_world (GetFirestoreClient 0))
   \<and> hasFirestoreClient (step example_world (GetFirestoreClient 0)) 0
   \<and> state_of (step example_world (GetFirestoreClient 0)) 1 = Pending
   \<and> runtime (clients (step example_world (GetFirestoreClient 0)) ! 0) = Starting"
proof -
  have a: "\<not> fs_terminated (firestores example_world 0)"
    by (simp add: example_defs)
  have b: "firestoreClientInstances example_world 0 = None"
    by (simp add: example_defs)
  have n: "length (promises example_world) = 0" "length (clients example_world) = 0"
    by (simp_all add: example_defs)
  from getOrCreate_creates [OF a b] obtain w1 where
    g: "getFirestoreClient example_world 0 = Inr (Some (Suc (length (promises example_world))), w1)"
    and h: "hasFirestoreClient w1 0"
    and p: "state_of w1 (Suc (length (promises example_world))) = Pending"
    and r: "runtime (clients w1 ! length (clients example_world)) = Starting"
    by blast
  from g have w1: "step example_world (GetFirestoreClient 0) = w1" by simp
  from g h p r n show ?thesis unfolding w1 by simp
qed

section \<open>The DatabaseInfo of a new runtime\<close>

text \<open>
  C10. The \<^verbatim>\<open>DatabaseInfo\<close> built for a new runtime takes the host and ssl of the
  handle's settings where they are given and the defaults
  \<^verbatim>\<open>'firestore.googleapis.com'\<close> and \<^verbatim>\<open>true\<close> where they are not, with
  forceLongPolling false: in the full SDK it is what the client is started with,
  in the lite SDK it is what the connection is requested for.
\<close>

theorem databaseInfo_defaults:
  assumes "s = (case fs_settings (firestores w f) of None \<Rightarrow> emptySettings | Some x \<Rightarrow> x)"
    and "di = DatabaseInfo (fs_databaseId (firestores w f)) (fs_persistenceKey (firestores w f))
           (case host s of None \<Rightarrow> ''firestore.googleapis.com'' | Some h \<Rightarrow> h)
           (case ssl s of None \<Rightarrow> True | Some b \<Rightarrow> b) False"
  shows "(\<not> fs_terminated (firestores w f) \<and> firestoreClientInstances w f = None \<longrightarrow>
           (\<exists>w1. initializeFirestoreClient w f cp ps = Inr (length (promises w), w1)
              \<and> startArgs (clients w1 ! length (clients w)) = Some (di, cp, ps)))
       \<and> (datastoreInstances w f = None \<longrightarrow>
           connections (snd (getDatastore w f)) = connections w @ [(di, length (promises w))])"
proof (intro conjI impI)
  assume a: "\<not> fs_terminated (firestores w f) \<and> firestoreClientInstances w f = None"
  then have "\<not> fs_terminated (firestores w f)" "firestoreClientInstances w f = None"
    by simp_all
  from initializeFirestoreClient_Inr [OF this, of cp ps] assms
  show "\<exists>w1. initializeFirestoreClient w f cp ps = Inr (length (promises w), w1)
              \<and> startArgs (clients w1 ! length (clients w)) = Some (di, cp, ps)"
    by (auto simp: getSettings_def nullish_def DEFAULT_HOST_def DEFAULT_SSL_def
        split: option.splits)
next
  assume "datastoreInstances w f = None"
  with assms show "connections (snd (getDatastore w f)) = connections w @ [(di, length (promises w))]"
    by (simp add: getDatastore_def getSettings_def newConnection_def new_promise_def Let_def
        nullish_def DEFAULT_HOST_def DEFAULT_SSL_def split: option.splits)
qed

theorem databaseInfo_defaults_witness:
  "startArgs (clients (step emulator_world (InitializeFirestoreClient 1 IndexedDbComponentProvider
       (PersistenceSettings True None None))) ! 0)
     = Some (DatabaseInfo (DatabaseId ''project'' ''(default)'') ''[DEFAULT]''
               ''localhost:8080'' False False,
             IndexedDbComponentProvider, PersistenceSettings True None None)
   \<and> connections (snd (getDatastore emulator_world 0))
     = [(DatabaseInfo (DatabaseId ''project'' ''(default)'') ''[DEFAULT]''
           ''firestore.googleapis.com'' True False, 0)]"
proof -
  let ?ps = "PersistenceSettings True None None"
  let ?s = "\<lparr>host = Some ''localhost:8080'', ssl = Some False, cacheSizeBytes = None\<rparr>"
  let ?di = "DatabaseInfo (DatabaseId ''project'' ''(default)'') ''[DEFAULT]''"
  have s1: "?s = (case fs_settings (firestores emulator_world 1) of
                    None \<Rightarrow> emptySettings | Some x \<Rightarrow> x)"
    by (simp add: emulator_world_def example_defs)
  have d1: "?di ''localhost:8080'' False False
      = DatabaseInfo (fs_databaseId (firestores emulator_world 1))
          (fs_persistenceKey (firestores emulator_world 1))
          (case host ?s of None \<Rightarrow> ''firestore.googleapis.com'' | Some h \<Rightarrow> h)
          (case ssl ?s of None \<Rightarrow> True | Some b \<Rightarrow> b) False"
    by (simp add: emulator_world_def example_defs)
  have s0: "emptySettings = (case fs_settings (firestores emulator_world 0) of
                    None \<Rightarrow> emptySettings | Some x \<Rightarrow> x)"
    by (simp add: emulator_world_def example_defs)
  have d0: "?di ''firestore.googleapis.com'' True False
      = DatabaseInfo (fs_databaseId (firestores emulator_world 0))
          (fs_persistenceKey (firestores emulator_world 0))
          (case host emptySettings of None \<Rightarrow> ''firestore.googleapis.com'' | Some h \<Rightarrow> h)
          (case ssl emptySettings of None \<Rightarrow> True | Some b \<Rightarrow> b) False"
    by (simp add: emulator_world_def example_defs)
  have pre: "\<not> fs_terminated (firestores emulator_world 1)"
            "firestoreClientInstances emulator_world 1 = None"
            "datastoreInstances emulator_world 0 = None"
            "length (promises emulator_world) = 0" "length (clients emulator_world) = 0"
            "connections emulator_world = []"
    by (simp_all add: emulator_world_def example_defs)
  from databaseInfo_defaults [OF s1 d1, of IndexedDbComponentProvider ?ps] pre
  obtain w1 where i: "initializeFirestoreClient emulator_world 1 IndexedDbComponentProvider ?ps
        = Inr (0, w1)"
    and a: "startArgs (clients w1 ! 0)
        = Some (?di ''localhost:8080'' False False, IndexedDbComponentProvider, ?ps)"
    by auto
  from i have w1: "step emulator_world (InitializeFirestoreClient 1 IndexedDbComponentProvider ?ps)
        = w1"
    by simp
  from databaseInfo_defaults [OF s0 d0, of IndexedDbComponentProvider ?ps] pre
  have c: "connections (snd (getDatastore emulator_world 0))
        = [(?di ''firestore.googleapis.com'' True False, 0)]"
    by simp
  from a c show ?thesis unfolding w1 by simp
qed

section \<open>A failed construction\<close>




section \<open>Clearing persistence\<close>

lemma run_tasks_snoc: "run_tasks w f (rs @ [r]) = run_task (run_tasks w f rs) f r"
  by (induction rs arbitrary: w) simp_all




section \<open>Cache size validation\<close>

text \<open>
  C6. \<^verbatim>\<open>initializeFirestore\<close> rejects settings whose \<^verbatim>\<open>cacheSizeBytes\<close> is defined, is
  not the sentinel for unlimited and is below the minimum, in particular the
  minimum less one: it throws INVALID_ARGUMENT right after the provider lookup,
  \<^verbatim>\<open>_configureClient\<close> is not reached, and the world is the one the lookup left. An
  undefined \<^verbatim>\<open>cacheSizeBytes\<close>, the sentinel, and a value not below the minimum pass
  the check: the result is that of \<^verbatim>\<open>_configureClient\<close>.
\<close>

theorem cache_size_validation:
  "(cacheSizeBytes s = Some n \<and> strict_neq n (CACHE_SIZE_UNLIMITED X)
      \<and> number_lt n (MINIMUM_CACHE_SIZE_BYTES X) \<longrightarrow>
      initializeFirestore X w app s = (Inl (cache_too_small X), snd (getImmediate X w app)))
   \<and> (MINIMUM_CACHE_SIZE_BYTES X = Num m \<and> CACHE_SIZE_UNLIMITED X \<noteq> Num (m - 1)
      \<and> cacheSizeBytes s = Some (Num (m - 1)) \<longrightarrow>
      initializeFirestore X w app s = (Inl (cache_too_small X), snd (getImmediate X w app)))
   \<and> (cacheSizeBytes s = None
      \<or> (cacheSizeBytes s = Some (CACHE_SIZE_UNLIMITED X) \<and> CACHE_SIZE_UNLIMITED X \<noteq> NaN)
      \<or> (cacheSizeBytes s = Some n \<and> \<not> number_lt n (MINIMUM_CACHE_SIZE_BYTES X)) \<longrightarrow>
      initializeFirestore X w app s
        = (case configureClient X (snd (getImmediate X w app)) (fst (getImmediate X w app)) s of
             (Some e, w2) \<Rightarrow> (Inl e, w2)
           | (None, w2) \<Rightarrow> (Inr (fst (getImmediate X w app)), w2)))"
  by (auto simp: initializeFirestore_def strict_neq_def Let_def split: prod.splits option.splits)

theorem cache_size_validation_witness:
  "initializeFirestore example_externals example_world 0
       \<lparr>host = None, ssl = None, cacheSizeBytes = Some (Num 1048575)\<rparr>
     = (Inl (FirestoreError INVALID_ARGUMENT ''cacheSizeBytes must be at least 1048576''),
        example_world)
   \<and> fst (initializeFirestore example_externals example_world 0
       \<lparr>host = None, ssl = None, cacheSizeBytes = Some (Num (- 1))\<rparr>) = Inr 0
   \<and> fst (initializeFirestore example_externals example_world 0
       \<lparr>host = None, ssl = None, cacheSizeBytes = Some (Num 1048576)\<rparr>) = Inr 0
   \<and> fst (initializeFirestore example_externals example_world 0
       \<lparr>host = None, ssl = None, cacheSizeBytes = None\<rparr>) = Inr 0"
proof -
  let ?X = example_externals
  have x: "MINIMUM_CACHE_SIZE_BYTES ?X = Num 1048576" "CACHE_SIZE_UNLIMITED ?X = Num (- 1)"
    by (simp_all add: example_externals_def)
  have c1: "initializeFirestore ?X example_world 0
       \<lparr>host = None, ssl = None, cacheSizeBytes = Some (Num 1048575)\<rparr>
     = (Inl (FirestoreError INVALID_ARGUMENT ''cacheSizeBytes must be at least 1048576''),
        example_world)"
    using cache_size_validation [where X = ?X and w = example_world and app = 0
        and s = "\<lparr>host = None, ssl = None, cacheSizeBytes = Some (Num 1048575)\<rparr>"
        and m = 1048576 and n = "Num 1048575"]
    by (simp add: example_externals_def cache_too_small_def strict_neq_def)
  have c2: "fst (initializeFirestore ?X example_world 0
       \<lparr>host = None, ssl = None, cacheSizeBytes = Some (Num (- 1))\<rparr>) = Inr 0"
    using cache_size_validation [where X = ?X and w = example_world and app = 0
        and s = "\<lparr>host = None, ssl = None, cacheSizeBytes = Some (Num (- 1))\<rparr>"
        and n = "Num (- 1)"]
    by (simp add: example_externals_def)
  have c3: "fst (initializeFirestore ?X example_world 0
       \<lparr>host = None, ssl = None, cacheSizeBytes = Some (Num 1048576)\<rparr>) = Inr 0"
    using cache_size_validation [where X = ?X and w = example_world and app = 0
        and s = "\<lparr>host = None, ssl = None, cacheSizeBytes = Some (Num 1048576)\<rparr>"
        and n = "Num 1048576"]
    by (simp add: example_externals_def)
  have c4: "fst (initializeFirestore ?X example_world 0
       \<lparr>host = None, ssl = None, cacheSizeBytes = None\<rparr>) = Inr 0"
    using cache_size_validation [where X = ?X and w = example_world and app = 0
        and s = "\<lparr>host = None, ssl = None, cacheSizeBytes = None\<rparr>"]
    by (simp add: example_externals_def)
  show ?thesis by (intro conjI) (rule c1, rule c2, rule c3, rule c4)
qed

end
